theory Spec2Isabelle
  imports Main "HOL-Library.Sublist"
begin

section \<open>Python values, callables and exceptions\<close>

text \<open>
  The reason of a \<^verbatim>\<open>TypeError\<close> raised by a call: the object called is not callable;
  a parameter or keyword got a second value (the name is the one Python reports); the
  callee takes no argument and got some. The reason is kept, not the text of Python's
  message, which also names the function called.
\<close>

datatype type_error =
    NotCallable
  | MultipleValues string
  | TakesNoArguments

text \<open>
  The exceptions of the module \<^verbatim>\<open>interfaces/base_for_async_and_sync_subclasshook.py\<close>:
  the \<^verbatim>\<open>ValueError\<close> of the behavior setters (with its message), the \<^verbatim>\<open>TypeError\<close>
  of a call, the \<^verbatim>\<open>AttributeError\<close> of a read of a missing attribute, and
  \<^verbatim>\<open>RuntimeError\<close> for whatever else the read of a member of a candidate raises (a
  property or a \<^verbatim>\<open>__getattr__\<close> of the candidate runs code of its own).
\<close>

datatype py_error =
    ValueError string
  | TypeError type_error
  | AttributeError string
  | RuntimeError string

fun is_AttributeError :: "py_error \<Rightarrow> bool" where
  "is_AttributeError (AttributeError name) = True"
| "is_AttributeError _ = False"

text \<open>
  First-order Python data. \<^verbatim>\<open>NotImplemented\<close> is the singleton the subclass hooks and
  the placeholder behaviors return.
\<close>

datatype pyval =
    PyNone
  | PyNotImplemented
  | PyBool bool
  | PyInt int
  | PyStr string

text \<open>
  A keyword dictionary (\<^verbatim>\<open>**kwargs\<close>) is an association list in insertion order; a
  callable takes the positional arguments and the keyword dictionary and returns a value
  or raises.
\<close>

type_synonym kwargs = "(string \<times> pyval) list"

type_synonym pyfun = "pyval list \<Rightarrow> kwargs \<Rightarrow> py_error + pyval"

text \<open>
  An object that can be assigned to a behavior slot or found as a member of a candidate
  class: plain data (\<^verbatim>\<open>None\<close> included), a function defined with \<^verbatim>\<open>def\<close> or
  \<^verbatim>\<open>lambda\<close>, or a coroutine function defined with \<^verbatim>\<open>async def\<close>.
\<close>

datatype pyobj =
    Data pyval
  | Function pyfun
  | CoroutineFunction pyfun

text \<open>\<^verbatim>\<open>func is None\<close>\<close>

fun is_None :: "pyobj \<Rightarrow> bool" where
  "is_None (Data PyNone) = True"
| "is_None _ = False"

text \<open>\<^verbatim>\<open>inspect.iscoroutinefunction(func)\<close>\<close>

fun iscoroutinefunction :: "pyobj \<Rightarrow> bool" where
  "iscoroutinefunction (CoroutineFunction c) = True"
| "iscoroutinefunction _ = False"

text \<open>\<^verbatim>\<open>callable(x)\<close>\<close>

fun callable :: "pyobj \<Rightarrow> bool" where
  "callable (Function f) = True"
| "callable (CoroutineFunction c) = True"
| "callable (Data v) = False"

text \<open>The call \<^verbatim>\<open>x(*args, **kwargs)\<close>.\<close>

fun py_call :: "pyobj \<Rightarrow> pyfun" where
  "py_call (Function f) args kwargs = f args kwargs"
| "py_call (CoroutineFunction c) args kwargs = c args kwargs"
| "py_call (Data v) args kwargs = Inl (TypeError NotCallable)"

text \<open>
  Truth value of the values the hooks compute. \<^verbatim>\<open>NotImplemented\<close> is truthy in the
  Python versions the module runs on.
\<close>

fun truthy :: "pyval \<Rightarrow> bool" where
  "truthy PyNone = False"
| "truthy PyNotImplemented = True"
| "truthy (PyBool b) = b"
| "truthy (PyInt i) = (i \<noteq> 0)"
| "truthy (PyStr s) = (s \<noteq> [])"

fun is_bool :: "pyval \<Rightarrow> bool" where
  "is_bool (PyBool b) = True"
| "is_bool _ = False"

text \<open>
  The short-circuit operators: \<^verbatim>\<open>a and b\<close> is \<^verbatim>\<open>a\<close> when \<^verbatim>\<open>a\<close> is falsy and
  \<^verbatim>\<open>b\<close> otherwise; \<^verbatim>\<open>a or b\<close> is \<^verbatim>\<open>a\<close> when \<^verbatim>\<open>a\<close> is truthy and \<^verbatim>\<open>b\<close>
  otherwise. An exception of the left operand propagates, and the right operand is only
  looked at when the left one does not decide.
\<close>

definition py_and :: "py_error + pyval \<Rightarrow> py_error + pyval \<Rightarrow> py_error + pyval" where
  "py_and a b = (case a of Inl e \<Rightarrow> Inl e | Inr v \<Rightarrow> if truthy v then b else Inr v)"

definition py_or :: "py_error + pyval \<Rightarrow> py_error + pyval \<Rightarrow> py_error + pyval" where
  "py_or a b = (case a of Inl e \<Rightarrow> Inl e | Inr v \<Rightarrow> if truthy v then Inr v else b)"

section \<open>Attribute access\<close>

text \<open>
  Members by name: an instance's \<^verbatim>\<open>__dict__\<close>, or the members a class exposes as
  plain attributes.
\<close>

type_synonym namespace = "string \<rightharpoonup> pyobj"

text \<open>
  A candidate handed to a subclass hook is any object: what the hook sees of it is what
  reading each attribute does, which is to give a value or to raise. The same name gives
  the same outcome each time it is read.
\<close>

type_synonym candidate = "string \<Rightarrow> py_error + pyobj"

text \<open>
  The candidate whose members are plain attributes: a read gives the member, or raises
  \<^verbatim>\<open>AttributeError\<close> when there is none of that name.
\<close>

definition plain :: "namespace \<Rightarrow> candidate" where
  "plain members name =
    (case members name of None \<Rightarrow> Inl (AttributeError name) | Some v \<Rightarrow> Inr v)"

text \<open>\<^verbatim>\<open>getattr(sub, name)\<close>, also written \<^verbatim>\<open>sub.name\<close>\<close>

definition getattr :: "candidate \<Rightarrow> string \<Rightarrow> py_error + pyobj" where
  "getattr sub name = sub name"

text \<open>
  \<^verbatim>\<open>hasattr(sub, name)\<close>: \<^verbatim>\<open>getattr\<close> with \<^verbatim>\<open>AttributeError\<close> caught, and only
  that: any other exception of the read propagates.
\<close>

definition hasattr :: "candidate \<Rightarrow> string \<Rightarrow> py_error + pyval" where
  "hasattr sub name =
    (case getattr sub name of
       Inl e \<Rightarrow> if is_AttributeError e then Inr (PyBool False) else Inl e
     | Inr v \<Rightarrow> Inr (PyBool True))"

text \<open>\<^verbatim>\<open>callable(sub.name)\<close>: the attribute is read again, and what the read raises propagates.\<close>

definition callable_attr :: "candidate \<Rightarrow> string \<Rightarrow> py_error + pyval" where
  "callable_attr sub name =
    (case getattr sub name of Inl e \<Rightarrow> Inl e | Inr v \<Rightarrow> Inr (PyBool (callable v)))"

section \<open>The subclass hooks\<close>

text \<open>\<^verbatim>\<open>LinkInterface.__subclasshook__\<close>\<close>

definition LinkInterface_subclasshook :: "candidate \<Rightarrow> py_error + pyval" where
  "LinkInterface_subclasshook sub =
    py_and (py_and (py_and (py_and
      (py_or
        (py_and (py_and (py_and
          (hasattr sub ''__enter__'') (callable_attr sub ''__enter__''))
          (hasattr sub ''__exit__'')) (callable_attr sub ''__exit__''))
        (py_and (py_and (py_and
          (hasattr sub ''__aenter__'') (callable_attr sub ''__aenter__''))
          (hasattr sub ''__aexit__'')) (callable_attr sub ''__aexit__'')))
      (hasattr sub ''generate_uri'')) (callable_attr sub ''generate_uri''))
      (hasattr sub ''decode_uri'')) (callable_attr sub ''decode_uri'')"

text \<open>\<^verbatim>\<open>RegistryInterface.__subclasshook__\<close>\<close>

definition RegistryInterface_subclasshook :: "candidate \<Rightarrow> py_error + pyval" where
  "RegistryInterface_subclasshook sub =
    py_and (py_and (py_and (py_and (py_and
      (py_or
        (py_and (hasattr sub ''create'') (callable_attr sub ''create''))
        (py_and (hasattr sub ''async_create'') (callable_attr sub ''async_create'')))
      (py_or
        (py_and (hasattr sub ''delete'') (callable_attr sub ''delete''))
        (py_and (hasattr sub ''async_delete'') (callable_attr sub ''async_delete''))))
      (hasattr sub ''__keystore__''))
      (py_and (hasattr sub ''__setitem__'') (callable_attr sub ''__setitem__'')))
      (py_and (hasattr sub ''__getitem__'') (callable_attr sub ''__getitem__'')))
      (py_or
        (py_and (hasattr sub ''retrieve'') (callable_attr sub ''retrieve''))
        (py_and (hasattr sub ''async_retrieve'') (callable_attr sub ''async_retrieve'')))"

text \<open>\<^verbatim>\<open>ActionInterface.__subclasshook__\<close>\<close>

definition ActionInterface_subclasshook :: "candidate \<Rightarrow> py_error + pyval" where
  "ActionInterface_subclasshook sub =
    py_or
      (py_and
        (hasattr sub ''__behavior__'')
        (py_or
          (py_and (hasattr sub ''__call__'') (callable_attr sub ''__call__''))
          (py_and (py_and
            (py_and (hasattr sub ''__call__'') (callable_attr sub ''__call__''))
            (py_and (hasattr sub ''__enter__'') (callable_attr sub ''__enter__'')))
            (py_and (hasattr sub ''__exit__'') (callable_attr sub ''__exit__'')))))
      (py_and
        (hasattr sub ''__async_behavior__'')
        (py_or
          (py_and (hasattr sub ''__await__'') (callable_attr sub ''__await__''))
          (py_and (py_and
            (py_and (hasattr sub ''__await__'') (callable_attr sub ''__await__''))
            (py_and (hasattr sub ''__aenter__'') (callable_attr sub ''__aenter__'')))
            (py_and (hasattr sub ''__aexit__'') (callable_attr sub ''__aexit__'')))))"

text \<open>
  \<^verbatim>\<open>DownloadInterface.__subclasshook__\<close>. \<^verbatim>\<open>and\<close> binds tighter than \<^verbatim>\<open>or\<close>: the
  hook is \<^verbatim>\<open>(cm and (before or NotImplemented) and (after or NotImplemented)) or
  NotImplemented\<close>, where \<^verbatim>\<open>cm\<close> is the test for a context manager, and each hook
  test is \<^verbatim>\<open>(hasattr and callable) or NotImplemented\<close>.
\<close>

definition DownloadInterface_subclasshook :: "candidate \<Rightarrow> py_error + pyval" where
  "DownloadInterface_subclasshook sub =
    py_or
      (py_and (py_and
        (py_or
          (py_and (py_and (py_and
            (hasattr sub ''__aenter__'') (hasattr sub ''__aexit__''))
            (callable_attr sub ''__aenter__'')) (callable_attr sub ''__aexit__''))
          (py_and (py_and (py_and
            (hasattr sub ''__enter__'') (hasattr sub ''__exit__''))
            (callable_attr sub ''__enter__'')) (callable_attr sub ''__exit__'')))
        (py_or
          (py_and (hasattr sub ''before_download'') (callable_attr sub ''before_download''))
          (Inr PyNotImplemented)))
        (py_or
          (py_and (hasattr sub ''after_download'') (callable_attr sub ''after_download''))
          (Inr PyNotImplemented)))
      (Inr PyNotImplemented)"

text \<open>\<^verbatim>\<open>UploadInterface.__subclasshook__\<close>\<close>

definition UploadInterface_subclasshook :: "candidate \<Rightarrow> py_error + pyval" where
  "UploadInterface_subclasshook sub =
    py_or
      (py_and (py_and
        (py_or
          (py_and (py_and (py_and
            (hasattr sub ''__aenter__'') (hasattr sub ''__aexit__''))
            (callable_attr sub ''__aenter__'')) (callable_attr sub ''__aexit__''))
          (py_and (py_and (py_and
            (hasattr sub ''__enter__'') (hasattr sub ''__exit__''))
            (callable_attr sub ''__enter__'')) (callable_attr sub ''__exit__'')))
        (py_or
          (py_and (hasattr sub ''before_upload'') (callable_attr sub ''before_upload''))
          (Inr PyNotImplemented)))
        (py_or
          (py_and (hasattr sub ''after_upload'') (callable_attr sub ''after_upload''))
          (Inr PyNotImplemented)))
      (Inr PyNotImplemented)"

section \<open>Actions\<close>

text \<open>
  The keyword part of the call \<^verbatim>\<open>Func(*args, *Partial_Args, **kwargs, **Partial_Kwargs)\<close>:
  the dictionaries are unpacked in order into the keywords of the call, and a name that
  is already there makes the call raise \<^verbatim>\<open>TypeError\<close> (got multiple values for keyword
  argument) before \<^verbatim>\<open>Func\<close> is entered. Python reports the first name of
  \<^verbatim>\<open>Partial_Kwargs\<close> that \<^verbatim>\<open>kwargs\<close> has too.
\<close>

definition unpack_kwargs :: "kwargs \<Rightarrow> kwargs \<Rightarrow> py_error + kwargs" where
  "unpack_kwargs kwargs Partial_Kwargs =
    (case filter (\<lambda>k. k \<in> set (map fst kwargs)) (map fst Partial_Kwargs) of
       [] \<Rightarrow> Inr (kwargs @ Partial_Kwargs)
     | k # ks \<Rightarrow> Inl (TypeError (MultipleValues k)))"

text \<open>
  \<^verbatim>\<open>AbstractAction._gen_wrapper(Func, *Partial_Args, **Partial_Kwargs)\<close>
  (\<open>target\<close> is the source's \<^verbatim>\<open>Func\<close>). \<^verbatim>\<open>Func\<close> is a named parameter filled by
  the first positional argument, so a bound keyword of that name makes the call of
  \<^verbatim>\<open>_gen_wrapper\<close> itself raise \<^verbatim>\<open>TypeError\<close> (got multiple values for argument
  \<^verbatim>\<open>Func\<close>) and no wrapper is built. Otherwise the closure \<^verbatim>\<open>_generic\<close> is
  returned, a plain function; it has no named parameter and takes any keyword.
\<close>

definition AbstractAction_gen_wrapper :: "pyobj \<Rightarrow> pyval list \<Rightarrow> kwargs \<Rightarrow> py_error + pyfun" where
  "AbstractAction_gen_wrapper target Partial_Args Partial_Kwargs =
    (if ''Func'' \<in> set (map fst Partial_Kwargs) then Inl (TypeError (MultipleValues ''Func''))
     else Inr (\<lambda>args kwargs.
       case unpack_kwargs kwargs Partial_Kwargs of
         Inl e \<Rightarrow> Inl e
       | Inr kw \<Rightarrow> py_call target (args @ Partial_Args) kw))"

text \<open>\<^verbatim>\<open>AbstractAsyncAction._gen_wrapper\<close>, the same signature and body in the other class.\<close>

definition AbstractAsyncAction_gen_wrapper :: "pyobj \<Rightarrow> pyval list \<Rightarrow> kwargs \<Rightarrow> py_error + pyfun" where
  "AbstractAsyncAction_gen_wrapper target Partial_Args Partial_Kwargs =
    (if ''Func'' \<in> set (map fst Partial_Kwargs) then Inl (TypeError (MultipleValues ''Func''))
     else Inr (\<lambda>args kwargs.
       case unpack_kwargs kwargs Partial_Kwargs of
         Inl e \<Rightarrow> Inl e
       | Inr kw \<Rightarrow> py_call target (args @ Partial_Args) kw))"

text \<open>The messages of the two setters, as the triple-quoted literals of the source.\<close>

definition sync_setter_message :: string where
  "sync_setter_message =
    ''\<newline>            Illegal target type 'coroutine' assigned.'' @
    ''\<newline>            Consider replacing the `func` parameter with'' @
    ''\<newline>            a blocking, synchronous function instead of a '' @
    ''\<newline>            coroutine function. Otherwise, use a class that '' @
    ''\<newline>            inherits from the `AbstractAsyncAction` type.''"

definition async_setter_message :: string where
  "async_setter_message =
    ''\<newline>            Illegal non-coroutine target type assigned.'' @
    ''\<newline>            Please supply an async function to the `coro`'' @
    ''\<newline>            paramter or replace this action with a blocking,'' @
    ''\<newline>            synchronous class instance that inherits from the'' @
    ''\<newline>            `AbstractAction` type.''"

text \<open>
  An instance is its \<^verbatim>\<open>__dict__\<close>. The setter of the property \<^verbatim>\<open>__behavior__\<close>
  writes \<^verbatim>\<open>self._behavior_store\<close> or raises (its own \<^verbatim>\<open>ValueError\<close>, or what
  \<^verbatim>\<open>_gen_wrapper\<close> raises); the getter reads it. \<open>args\<close> and \<open>kwargs\<close> are the
  setter's \<^verbatim>\<open>*args\<close> and \<^verbatim>\<open>**kwargs\<close> as the body receives them.
\<close>

definition AbstractAction_behavior_setter ::
  "namespace \<Rightarrow> pyobj \<Rightarrow> pyval list \<Rightarrow> kwargs \<Rightarrow> py_error + namespace" where
  "AbstractAction_behavior_setter self func args kwargs =
    (if \<not> is_None func \<and> \<not> iscoroutinefunction func
     then (case AbstractAction_gen_wrapper func args kwargs of
             Inl e \<Rightarrow> Inl e
           | Inr wrapper \<Rightarrow> Inr (self(''_behavior_store'' \<mapsto> Function wrapper)))
     else Inl (ValueError sync_setter_message))"

definition AbstractAction_behavior_getter :: "namespace \<Rightarrow> py_error + pyobj" where
  "AbstractAction_behavior_getter self = getattr (plain self) ''_behavior_store''"

text \<open>
  The assignment \<^verbatim>\<open>self.__behavior__ = func\<close>: a property's setter is called with the
  instance and the assigned value only, so \<^verbatim>\<open>*args\<close> and \<^verbatim>\<open>**kwargs\<close> of the setter
  are empty.
\<close>

definition AbstractAction_assign_behavior :: "namespace \<Rightarrow> pyobj \<Rightarrow> py_error + namespace" where
  "AbstractAction_assign_behavior self func = AbstractAction_behavior_setter self func [] []"

text \<open>The placeholder \<^verbatim>\<open>lambda: NotImplemented\<close> takes no argument.\<close>

definition sync_placeholder :: pyfun where
  "sync_placeholder args kwargs =
    (if args = [] \<and> kwargs = [] then Inr PyNotImplemented
     else Inl (TypeError TakesNoArguments))"

text \<open>
  \<^verbatim>\<open>AbstractAction.__init__(self, func=None, **kwargs)\<close>: the placeholder is stored, then
  \<^verbatim>\<open>func\<close> is assigned through the property, then \<^verbatim>\<open>self.__dict__.update(kwargs)\<close>.
\<close>

definition AbstractAction_init :: "pyobj \<Rightarrow> (string \<times> pyobj) list \<Rightarrow> py_error + namespace" where
  "AbstractAction_init func kwargs =
    (case AbstractAction_assign_behavior [''_behavior_store'' \<mapsto> Function sync_placeholder] func of
       Inl e \<Rightarrow> Inl e
     | Inr self \<Rightarrow> Inr (self ++ map_of kwargs))"

text \<open>
  The call \<^verbatim>\<open>a(*args, **kwargs)\<close> of an instance, which runs
  \<^verbatim>\<open>AbstractAction.__call__(self, *args, **kwargs)\<close>. \<^verbatim>\<open>self\<close> is a named parameter
  filled by the instance, so a keyword of that name at the call site makes the call raise
  \<^verbatim>\<open>TypeError\<close> (got multiple values for argument \<^verbatim>\<open>self\<close>) before the body runs;
  every other keyword goes into \<^verbatim>\<open>**kwargs\<close>.
\<close>

definition AbstractAction_call :: "namespace \<Rightarrow> pyval list \<Rightarrow> kwargs \<Rightarrow> py_error + pyval" where
  "AbstractAction_call self args kwargs =
    (if ''self'' \<in> set (map fst kwargs) then Inl (TypeError (MultipleValues ''self''))
     else case AbstractAction_behavior_getter self of
       Inl e \<Rightarrow> Inl e
     | Inr behavior \<Rightarrow> py_call behavior args kwargs)"

text \<open>The async class: the setter of \<^verbatim>\<open>__async_behavior__\<close> accepts coroutine functions only.\<close>

definition AbstractAsyncAction_async_behavior_setter ::
  "namespace \<Rightarrow> pyobj \<Rightarrow> pyval list \<Rightarrow> kwargs \<Rightarrow> py_error + namespace" where
  "AbstractAsyncAction_async_behavior_setter self coro args kwargs =
    (if \<not> is_None coro \<and> iscoroutinefunction coro
     then (case AbstractAsyncAction_gen_wrapper coro args kwargs of
             Inl e \<Rightarrow> Inl e
           | Inr wrapper \<Rightarrow> Inr (self(''_behavior_store'' \<mapsto> Function wrapper)))
     else Inl (ValueError async_setter_message))"

definition AbstractAsyncAction_assign_async_behavior :: "namespace \<Rightarrow> pyobj \<Rightarrow> py_error + namespace" where
  "AbstractAsyncAction_assign_async_behavior self coro =
    AbstractAsyncAction_async_behavior_setter self coro [] []"

text \<open>
  The placeholder \<^verbatim>\<open>async def default(): return NotImplemented\<close>; the value is what
  awaiting the coroutine gives.
\<close>

definition async_placeholder :: pyfun where
  "async_placeholder args kwargs =
    (if args = [] \<and> kwargs = [] then Inr PyNotImplemented
     else Inl (TypeError TakesNoArguments))"

text \<open>\<^verbatim>\<open>AbstractAsyncAction.__init__(self, coro=None, **kwargs)\<close>\<close>

definition AbstractAsyncAction_init :: "pyobj \<Rightarrow> (string \<times> pyobj) list \<Rightarrow> py_error + namespace" where
  "AbstractAsyncAction_init coro kwargs =
    (case AbstractAsyncAction_assign_async_behavior
            [''_behavior_store'' \<mapsto> CoroutineFunction async_placeholder] coro of
       Inl e \<Rightarrow> Inl e
     | Inr self \<Rightarrow> Inr (self ++ map_of kwargs))"

section \<open>The requirements as the specification words them\<close>

text \<open>A candidate exposes a member of that name.\<close>

definition has_member :: "namespace \<Rightarrow> string \<Rightarrow> bool" where
  "has_member sub name = (case sub name of None \<Rightarrow> False | Some v \<Rightarrow> True)"

text \<open>A candidate exposes a callable member of that name (an entry point).\<close>

definition has_callable :: "namespace \<Rightarrow> string \<Rightarrow> bool" where
  "has_callable sub name = (case sub name of None \<Rightarrow> False | Some v \<Rightarrow> callable v)"

text \<open>
  The registry role of the specification: a creation entry point or an async one, a
  deletion entry point or an async one, the keyed-store marker, item-set, item-get, and a
  retrieval entry point or an async one.
\<close>

definition registry_requirements :: "namespace \<Rightarrow> bool" where
  "registry_requirements sub =
    ((has_callable sub ''create'' \<or> has_callable sub ''async_create'') \<and>
     (has_callable sub ''delete'' \<or> has_callable sub ''async_delete'') \<and>
     has_member sub ''__keystore__'' \<and>
     has_callable sub ''__setitem__'' \<and>
     has_callable sub ''__getitem__'' \<and>
     (has_callable sub ''retrieve'' \<or> has_callable sub ''async_retrieve''))"

text \<open>
  The merge of named arguments in the specification's words: the call-site keywords
  first, then the bound keywords for the names the call site did not give.
\<close>

definition merge_fill_remaining :: "kwargs \<Rightarrow> kwargs \<Rightarrow> kwargs" where
  "merge_fill_remaining kwargs bound_kwargs =
    kwargs @ filter (\<lambda>(k, v). k \<notin> set (map fst kwargs)) bound_kwargs"

text \<open>
  A candidate whose attribute reads raise nothing but \<^verbatim>\<open>AttributeError\<close>: each member
  is there or is missing.
\<close>

definition raises_only_AttributeError :: "candidate \<Rightarrow> bool" where
  "raises_only_AttributeError sub = (\<forall>name e. sub name = Inl e \<longrightarrow> is_AttributeError e)"

text \<open>Reading that name gives a member; reading it gives a callable member.\<close>

definition gives_member :: "candidate \<Rightarrow> string \<Rightarrow> bool" where
  "gives_member sub name = (case sub name of Inl e \<Rightarrow> False | Inr v \<Rightarrow> True)"

definition gives_callable :: "candidate \<Rightarrow> string \<Rightarrow> bool" where
  "gives_callable sub name = (case sub name of Inl e \<Rightarrow> False | Inr v \<Rightarrow> callable v)"

text \<open>
  A callable for the concrete cases: \<^verbatim>\<open>def f(*args, **kwargs): return None\<close> takes
  any positional and any keyword arguments.
\<close>

definition accepts_anything :: pyfun where
  "accepts_anything args kwargs = Inr PyNone"

section \<open>Evaluation of the member tests\<close>

lemma py_and_bool: "py_and (Inr (PyBool a)) (Inr (PyBool b)) = Inr (PyBool (a \<and> b))"
  by (simp add: py_and_def)

lemma py_or_bool: "py_or (Inr (PyBool a)) (Inr (PyBool b)) = Inr (PyBool (a \<or> b))"
  by (simp add: py_or_def)

lemma py_or_NotImplemented:
  "py_or (Inr (PyBool b)) (Inr PyNotImplemented) = Inr (if b then PyBool True else PyNotImplemented)"
  by (simp add: py_or_def)

lemma py_and_raises: "py_and (Inl e) b = Inl e"
  by (simp add: py_and_def)

lemma py_or_raises: "py_or (Inl e) b = Inl e"
  by (simp add: py_or_def)

lemma hasattr_raises:
  "sub name = Inl e \<Longrightarrow> \<not> is_AttributeError e \<Longrightarrow> hasattr sub name = Inl e"
  by (simp add: hasattr_def getattr_def)

lemma hasattr_eq:
  assumes "raises_only_AttributeError sub"
  shows "hasattr sub name = Inr (PyBool (gives_member sub name))"
proof (cases "sub name")
  case (Inl e)
  with assms have "is_AttributeError e"
    unfolding raises_only_AttributeError_def by blast
  with Inl show ?thesis
    by (simp add: hasattr_def getattr_def gives_member_def)
next
  case (Inr v)
  then show ?thesis
    by (simp add: hasattr_def getattr_def gives_member_def)
qed

text \<open>
  The guarded read \<^verbatim>\<open>hasattr(sub, n) and callable(sub.n)\<close> does not raise on a
  candidate whose reads raise nothing but \<^verbatim>\<open>AttributeError\<close>: the attribute is only
  read again when it is there.
\<close>

lemma member_test:
  assumes "raises_only_AttributeError sub"
  shows "py_and (hasattr sub name) (callable_attr sub name) =
           Inr (PyBool (gives_callable sub name))"
  by (simp add: hasattr_eq [OF assms] py_and_def callable_attr_def getattr_def
      gives_callable_def gives_member_def split: sum.split)

lemma and_member_test:
  assumes "raises_only_AttributeError sub"
  shows "py_and (py_and (Inr (PyBool a)) (hasattr sub name)) (callable_attr sub name) =
           Inr (PyBool (a \<and> gives_callable sub name))"
  by (simp add: hasattr_eq [OF assms] py_and_def callable_attr_def getattr_def
      gives_callable_def gives_member_def split: sum.split)

lemma has_has_callable_callable:
  assumes "raises_only_AttributeError sub"
  shows "py_and (py_and (py_and (hasattr sub a) (hasattr sub b)) (callable_attr sub a))
             (callable_attr sub b) =
           Inr (PyBool (gives_callable sub a \<and> gives_callable sub b))"
  by (simp add: hasattr_eq [OF assms] py_and_def callable_attr_def getattr_def
      gives_callable_def gives_member_def split: sum.split)

lemma plain_raises_only_AttributeError: "raises_only_AttributeError (plain members)"
  by (simp add: raises_only_AttributeError_def plain_def split: option.split)

lemma gives_member_plain: "gives_member (plain members) name = has_member members name"
  by (simp add: gives_member_def plain_def has_member_def split: option.split)

lemma gives_callable_plain: "gives_callable (plain members) name = has_callable members name"
  by (simp add: gives_callable_def plain_def has_callable_def split: option.split)

section \<open>What each hook computes\<close>

lemma LinkInterface_subclasshook_reads:
  assumes "raises_only_AttributeError sub"
  shows "LinkInterface_subclasshook sub = Inr (PyBool (
     ((gives_callable sub ''__enter__'' \<and> gives_callable sub ''__exit__'') \<or>
      (gives_callable sub ''__aenter__'' \<and> gives_callable sub ''__aexit__'')) \<and>
     gives_callable sub ''generate_uri'' \<and> gives_callable sub ''decode_uri''))"
  unfolding LinkInterface_subclasshook_def
  by (simp only: member_test [OF assms] and_member_test [OF assms] py_or_bool conj_assoc)

lemma RegistryInterface_subclasshook_reads:
  assumes "raises_only_AttributeError sub"
  shows "RegistryInterface_subclasshook sub = Inr (PyBool (
     (gives_callable sub ''create'' \<or> gives_callable sub ''async_create'') \<and>
     (gives_callable sub ''delete'' \<or> gives_callable sub ''async_delete'') \<and>
     gives_member sub ''__keystore__'' \<and>
     gives_callable sub ''__setitem__'' \<and>
     gives_callable sub ''__getitem__'' \<and>
     (gives_callable sub ''retrieve'' \<or> gives_callable sub ''async_retrieve'')))"
  unfolding RegistryInterface_subclasshook_def
  apply (simp only: member_test [OF assms])
  apply (simp only: hasattr_eq [OF assms] py_and_bool py_or_bool conj_assoc)
  done

lemma ActionInterface_subclasshook_reads:
  assumes "raises_only_AttributeError sub"
  shows "ActionInterface_subclasshook sub = Inr (PyBool (
     (gives_member sub ''__behavior__'' \<and> gives_callable sub ''__call__'') \<or>
     (gives_member sub ''__async_behavior__'' \<and> gives_callable sub ''__await__'')))"
proof -
  have absorb: "\<And>A B C. (A \<or> (A \<and> B \<and> C)) = A" by blast
  show ?thesis
    unfolding ActionInterface_subclasshook_def
    apply (simp only: member_test [OF assms])
    apply (simp only: hasattr_eq [OF assms] py_and_bool py_or_bool conj_assoc absorb)
    done
qed

lemma DownloadInterface_subclasshook_reads:
  assumes "raises_only_AttributeError sub"
  shows "DownloadInterface_subclasshook sub = Inr (
     if ((gives_callable sub ''__aenter__'' \<and> gives_callable sub ''__aexit__'') \<or>
         (gives_callable sub ''__enter__'' \<and> gives_callable sub ''__exit__'')) \<and>
        gives_callable sub ''after_download''
     then PyBool True else PyNotImplemented)"
  unfolding DownloadInterface_subclasshook_def
  apply (simp only: has_has_callable_callable [OF assms] member_test [OF assms]
      py_or_bool py_or_NotImplemented)
  apply (simp add: py_and_def py_or_def)
  done

lemma UploadInterface_subclasshook_reads:
  assumes "raises_only_AttributeError sub"
  shows "UploadInterface_subclasshook sub = Inr (
     if ((gives_callable sub ''__aenter__'' \<and> gives_callable sub ''__aexit__'') \<or>
         (gives_callable sub ''__enter__'' \<and> gives_callable sub ''__exit__'')) \<and>
        gives_callable sub ''after_upload''
     then PyBool True else PyNotImplemented)"
  unfolding UploadInterface_subclasshook_def
  apply (simp only: has_has_callable_callable [OF assms] member_test [OF assms]
      py_or_bool py_or_NotImplemented)
  apply (simp add: py_and_def py_or_def)
  done

text \<open>On a candidate with plain members, in terms of the members.\<close>

lemma LinkInterface_subclasshook_eq:
  "LinkInterface_subclasshook (plain sub) = Inr (PyBool (
     ((has_callable sub ''__enter__'' \<and> has_callable sub ''__exit__'') \<or>
      (has_callable sub ''__aenter__'' \<and> has_callable sub ''__aexit__'')) \<and>
     has_callable sub ''generate_uri'' \<and> has_callable sub ''decode_uri''))"
  by (simp only: LinkInterface_subclasshook_reads [OF plain_raises_only_AttributeError]
      gives_callable_plain)

lemma RegistryInterface_subclasshook_eq:
  "RegistryInterface_subclasshook (plain sub) = Inr (PyBool (registry_requirements sub))"
  by (simp only: RegistryInterface_subclasshook_reads [OF plain_raises_only_AttributeError]
      gives_callable_plain gives_member_plain registry_requirements_def)

lemma ActionInterface_subclasshook_eq:
  "ActionInterface_subclasshook (plain sub) = Inr (PyBool (
     (has_member sub ''__behavior__'' \<and> has_callable sub ''__call__'') \<or>
     (has_member sub ''__async_behavior__'' \<and> has_callable sub ''__await__'')))"
  by (simp only: ActionInterface_subclasshook_reads [OF plain_raises_only_AttributeError]
      gives_callable_plain gives_member_plain)

lemma DownloadInterface_subclasshook_eq:
  "DownloadInterface_subclasshook (plain sub) = Inr (
     if ((has_callable sub ''__aenter__'' \<and> has_callable sub ''__aexit__'') \<or>
         (has_callable sub ''__enter__'' \<and> has_callable sub ''__exit__'')) \<and>
        has_callable sub ''after_download''
     then PyBool True else PyNotImplemented)"
  by (simp only: DownloadInterface_subclasshook_reads [OF plain_raises_only_AttributeError]
      gives_callable_plain)

lemma UploadInterface_subclasshook_eq:
  "UploadInterface_subclasshook (plain sub) = Inr (
     if ((has_callable sub ''__aenter__'' \<and> has_callable sub ''__aexit__'') \<or>
         (has_callable sub ''__enter__'' \<and> has_callable sub ''__exit__'')) \<and>
        has_callable sub ''after_upload''
     then PyBool True else PyNotImplemented)"
  by (simp only: UploadInterface_subclasshook_reads [OF plain_raises_only_AttributeError]
      gives_callable_plain)

text \<open>
  A read that raises anything else is not caught: each hook raises what the read of the
  member it tests first raises.
\<close>

lemma LinkInterface_subclasshook_raises:
  assumes "sub ''__enter__'' = Inl e" and "\<not> is_AttributeError e"
  shows "LinkInterface_subclasshook sub = Inl e"
  unfolding LinkInterface_subclasshook_def
  by (simp only: hasattr_raises [of sub "''__enter__''" e, OF assms] py_and_raises py_or_raises)

lemma RegistryInterface_subclasshook_raises:
  assumes "sub ''create'' = Inl e" and "\<not> is_AttributeError e"
  shows "RegistryInterface_subclasshook sub = Inl e"
  unfolding RegistryInterface_subclasshook_def
  by (simp only: hasattr_raises [of sub "''create''" e, OF assms] py_and_raises py_or_raises)

lemma ActionInterface_subclasshook_raises:
  assumes "sub ''__behavior__'' = Inl e" and "\<not> is_AttributeError e"
  shows "ActionInterface_subclasshook sub = Inl e"
  unfolding ActionInterface_subclasshook_def
  by (simp only: hasattr_raises [of sub "''__behavior__''" e, OF assms] py_and_raises py_or_raises)

lemma DownloadInterface_subclasshook_raises:
  assumes "sub ''__aenter__'' = Inl e" and "\<not> is_AttributeError e"
  shows "DownloadInterface_subclasshook sub = Inl e"
  unfolding DownloadInterface_subclasshook_def
  by (simp only: hasattr_raises [of sub "''__aenter__''" e, OF assms] py_and_raises py_or_raises)

lemma UploadInterface_subclasshook_raises:
  assumes "sub ''__aenter__'' = Inl e" and "\<not> is_AttributeError e"
  shows "UploadInterface_subclasshook sub = Inl e"
  unfolding UploadInterface_subclasshook_def
  by (simp only: hasattr_raises [of sub "''__aenter__''" e, OF assms] py_and_raises py_or_raises)

section \<open>The wrapper\<close>

lemma unpack_kwargs_no_bound: "unpack_kwargs kwargs [] = Inr kwargs"
  by (simp add: unpack_kwargs_def)

lemma unpack_kwargs_disjoint:
  "set (map fst kwargs) \<inter> set (map fst Partial_Kwargs) = {} \<Longrightarrow>
     unpack_kwargs kwargs Partial_Kwargs = Inr (kwargs @ Partial_Kwargs)"
proof -
  assume "set (map fst kwargs) \<inter> set (map fst Partial_Kwargs) = {}"
  then have "filter (\<lambda>k. k \<in> set (map fst kwargs)) (map fst Partial_Kwargs) = []"
    by (auto simp add: filter_empty_conv)
  then show ?thesis
    by (simp add: unpack_kwargs_def)
qed

lemma unpack_kwargs_overlap:
  "set (map fst kwargs) \<inter> set (map fst Partial_Kwargs) \<noteq> {} \<Longrightarrow>
     unpack_kwargs kwargs Partial_Kwargs =
       Inl (TypeError (MultipleValues
              (hd (filter (\<lambda>k. k \<in> set (map fst kwargs)) (map fst Partial_Kwargs)))))"
proof -
  assume "set (map fst kwargs) \<inter> set (map fst Partial_Kwargs) \<noteq> {}"
  then obtain k where "k \<in> set (map fst Partial_Kwargs)" and "k \<in> set (map fst kwargs)"
    by blast
  then have "filter (\<lambda>k. k \<in> set (map fst kwargs)) (map fst Partial_Kwargs) \<noteq> []"
    unfolding filter_empty_conv by blast
  then obtain k ks where
    "filter (\<lambda>k. k \<in> set (map fst kwargs)) (map fst Partial_Kwargs) = k # ks"
    by (cases "filter (\<lambda>k. k \<in> set (map fst kwargs)) (map fst Partial_Kwargs)") auto
  then show ?thesis
    by (simp add: unpack_kwargs_def)
qed

text \<open>What the closure \<^verbatim>\<open>_generic\<close> does with a call, for a target that is a function.\<close>

lemma generic_forwards:
  "(case unpack_kwargs kwargs Partial_Kwargs of
      Inl e \<Rightarrow> Inl e
    | Inr kw \<Rightarrow> f (args @ Partial_Args) kw) =
   (if set (map fst kwargs) \<inter> set (map fst Partial_Kwargs) = {}
    then f (args @ Partial_Args) (kwargs @ Partial_Kwargs)
    else Inl (TypeError (MultipleValues
           (hd (filter (\<lambda>k. k \<in> set (map fst kwargs)) (map fst Partial_Kwargs))))))"
proof (cases "set (map fst kwargs) \<inter> set (map fst Partial_Kwargs) = {}")
  case True
  show ?thesis
    using True by (simp add: unpack_kwargs_disjoint)
next
  case False
  show ?thesis
    using False by (simp add: unpack_kwargs_overlap)
qed

lemma sync_wrapper_no_bound: "AbstractAction_gen_wrapper target [] [] = Inr (py_call target)"
  by (simp add: AbstractAction_gen_wrapper_def unpack_kwargs_no_bound)

lemma async_wrapper_no_bound: "AbstractAsyncAction_gen_wrapper target [] [] = Inr (py_call target)"
  by (simp add: AbstractAsyncAction_gen_wrapper_def unpack_kwargs_no_bound)

section \<open>The setter messages\<close>

lemma names_async_variant: "sublist ''`AbstractAsyncAction`'' sync_setter_message"
  unfolding sync_setter_message_def by (simp add: sublist_code(3))

lemma names_sync_variant: "sublist ''`AbstractAction`'' async_setter_message"
  unfolding async_setter_message_def by (simp add: sublist_code(3))

section \<open>The claims\<close>

text \<open>
  C1, as stated, fails for a keyword named \<^verbatim>\<open>self\<close>: after \<^verbatim>\<open>a.__behavior__ = f\<close>
  with an \<open>f\<close> that takes any arguments, \<^verbatim>\<open>a(self=1)\<close> raises \<^verbatim>\<open>TypeError\<close> where
  \<^verbatim>\<open>f(self=1)\<close> returns \<^verbatim>\<open>None\<close>.
\<close>

theorem keyword_named_self_counterexample:
  "(case AbstractAction_assign_behavior Map.empty (Function accepts_anything) of
      Inl e \<Rightarrow> Inl e
    | Inr a \<Rightarrow> AbstractAction_call a [] [(''self'', PyInt 1)]) =
     Inl (TypeError (MultipleValues ''self'')) \<and>
   accepts_anything [] [(''self'', PyInt 1)] = Inr PyNone"
  by (simp add: AbstractAction_assign_behavior_def AbstractAction_behavior_setter_def
      sync_wrapper_no_bound AbstractAction_call_def accepts_anything_def)

text \<open>
  C1, amended. For every synchronous callable \<open>f\<close> and every sync Action \<open>a\<close>, the
  assignment \<^verbatim>\<open>a.__behavior__ = f\<close> succeeds, and calling the Action afterwards with any
  positional arguments and any keyword arguments none of which is named \<^verbatim>\<open>self\<close> gives
  exactly what \<open>f\<close> gives on those arguments; with a keyword named \<^verbatim>\<open>self\<close> the call
  raises \<^verbatim>\<open>TypeError\<close> and \<open>f\<close> is not entered.
\<close>

theorem invoke_after_assign_behavior:
  "\<exists>a'. AbstractAction_assign_behavior a (Function f) = Inr a' \<and>
        (\<forall>args kwargs. AbstractAction_call a' args kwargs =
           (if ''self'' \<in> set (map fst kwargs) then Inl (TypeError (MultipleValues ''self''))
            else f args kwargs))"
  by (simp add: AbstractAction_assign_behavior_def AbstractAction_behavior_setter_def
      AbstractAction_call_def AbstractAction_behavior_getter_def getattr_def plain_def
      sync_wrapper_no_bound)

text \<open>
  C2. Assigning a coroutine function to the behavior of a sync Action raises the setter's
  \<^verbatim>\<open>ValueError\<close> (the specification's TypeKindMismatch), whose message names
  \<^verbatim>\<open>AbstractAsyncAction\<close>; assigning a plain function to the behavior of an async Action
  raises the other setter's \<^verbatim>\<open>ValueError\<close>, whose message names \<^verbatim>\<open>AbstractAction\<close>.
  This holds whatever the instance and whatever extra arguments the setter is given.
\<close>

theorem kind_mismatch_rejected:
  "AbstractAction_behavior_setter a (CoroutineFunction c) args kwargs =
     Inl (ValueError sync_setter_message) \<and>
   sublist ''`AbstractAsyncAction`'' sync_setter_message \<and>
   AbstractAsyncAction_async_behavior_setter a (Function f) args kwargs =
     Inl (ValueError async_setter_message) \<and>
   sublist ''`AbstractAction`'' async_setter_message"
  by (simp add: AbstractAction_behavior_setter_def AbstractAsyncAction_async_behavior_setter_def
      names_async_variant names_sync_variant)

text \<open>
  C3. Constructing an Action without an initial behavior does not succeed in the code:
  \<^verbatim>\<open>__init__\<close> stores the placeholder and then assigns the default \<^verbatim>\<open>None\<close> through
  the property, whose setter rejects \<^verbatim>\<open>None\<close>. Both constructors raise
  \<^verbatim>\<open>ValueError\<close>, whatever the extra keyword arguments.
\<close>

theorem init_without_behavior_raises:
  "AbstractAction_init (Data PyNone) kwargs = Inl (ValueError sync_setter_message) \<and>
   AbstractAsyncAction_init (Data PyNone) kwargs = Inl (ValueError async_setter_message)"
  by (simp add: AbstractAction_init_def AbstractAction_assign_behavior_def
      AbstractAction_behavior_setter_def AbstractAsyncAction_init_def
      AbstractAsyncAction_assign_async_behavior_def AbstractAsyncAction_async_behavior_setter_def)

text \<open>
  C4, as stated, fails when a bound name is also given at the call site: with \<^verbatim>\<open>x\<close>
  bound to 2 and the call \<^verbatim>\<open>wrapper(x=1)\<close>, the wrapper raises \<^verbatim>\<open>TypeError\<close> and the
  callable is not entered, where the claim has the callable receive \<^verbatim>\<open>x=1\<close> and return.
\<close>

theorem bound_name_given_twice_counterexample:
  "(case AbstractAction_gen_wrapper (Function accepts_anything) [] [(''x'', PyInt 2)] of
      Inl e \<Rightarrow> Inl e
    | Inr wrapper \<Rightarrow> wrapper [] [(''x'', PyInt 1)]) =
     Inl (TypeError (MultipleValues ''x'')) \<and>
   accepts_anything ([] @ []) (merge_fill_remaining [(''x'', PyInt 1)] [(''x'', PyInt 2)]) =
     Inr PyNone"
  by (simp add: AbstractAction_gen_wrapper_def unpack_kwargs_def merge_fill_remaining_def
      accepts_anything_def)

text \<open>
  C4, amended. When a bound keyword is named \<^verbatim>\<open>Func\<close>, \<^verbatim>\<open>_gen_wrapper\<close> of either
  class raises \<^verbatim>\<open>TypeError\<close> and stores no wrapper. For every other bound positional
  and named values it returns a wrapper that forwards to the original callable with the
  call-site positionals followed by the bound positionals and the call-site keywords
  followed by the bound keywords, when no bound name is also given at the call site; when
  one is, the wrapper raises \<^verbatim>\<open>TypeError\<close> for the first such bound name and the
  callable is not entered.
\<close>

theorem gen_wrapper_forwards:
  "(''Func'' \<in> set (map fst Partial_Kwargs) \<longrightarrow>
      AbstractAction_gen_wrapper (Function f) Partial_Args Partial_Kwargs =
        Inl (TypeError (MultipleValues ''Func'')) \<and>
      AbstractAsyncAction_gen_wrapper (CoroutineFunction f) Partial_Args Partial_Kwargs =
        Inl (TypeError (MultipleValues ''Func''))) \<and>
   (''Func'' \<notin> set (map fst Partial_Kwargs) \<longrightarrow>
      (\<exists>wrapper.
         AbstractAction_gen_wrapper (Function f) Partial_Args Partial_Kwargs = Inr wrapper \<and>
         (\<forall>args kwargs. wrapper args kwargs =
            (if set (map fst kwargs) \<inter> set (map fst Partial_Kwargs) = {}
             then f (args @ Partial_Args) (kwargs @ Partial_Kwargs)
             else Inl (TypeError (MultipleValues
                    (hd (filter (\<lambda>k. k \<in> set (map fst kwargs)) (map fst Partial_Kwargs)))))))) \<and>
      (\<exists>wrapper.
         AbstractAsyncAction_gen_wrapper (CoroutineFunction f) Partial_Args Partial_Kwargs =
           Inr wrapper \<and>
         (\<forall>args kwargs. wrapper args kwargs =
            (if set (map fst kwargs) \<inter> set (map fst Partial_Kwargs) = {}
             then f (args @ Partial_Args) (kwargs @ Partial_Kwargs)
             else Inl (TypeError (MultipleValues
                    (hd (filter (\<lambda>k. k \<in> set (map fst kwargs)) (map fst Partial_Kwargs)))))))))"
  by (simp add: AbstractAction_gen_wrapper_def AbstractAsyncAction_gen_wrapper_def
      generic_forwards)

theorem gen_wrapper_forwards_witness:
  "(''Func'' \<in> set (map fst [(''Func'', PyInt 1)]) \<and>
    AbstractAction_gen_wrapper (Function accepts_anything) [] [(''Func'', PyInt 1)] =
      Inl (TypeError (MultipleValues ''Func''))) \<and>
   (''Func'' \<notin> set (map fst [(''sep'', PyStr ''-'')]) \<and>
    (\<exists>wrapper.
       AbstractAction_gen_wrapper (Function accepts_anything) [PyInt 9] [(''sep'', PyStr ''-'')] =
         Inr wrapper \<and>
       wrapper [PyInt 1] [(''end'', PyStr ''.'')] =
         accepts_anything [PyInt 1, PyInt 9] [(''end'', PyStr ''.''), (''sep'', PyStr ''-'')]))"
proof -
  have bound_Func: "''Func'' \<in> set (map fst [(''Func'', PyInt 1)])"
    by simp
  have no_Func: "''Func'' \<notin> set (map fst [(''sep'', PyStr ''-'')])"
    by simp
  from gen_wrapper_forwards [where Partial_Kwargs = "[(''Func'', PyInt 1)]"
      and f = accepts_anything and Partial_Args = "[]"] bound_Func
  have raises: "AbstractAction_gen_wrapper (Function accepts_anything) [] [(''Func'', PyInt 1)] =
      Inl (TypeError (MultipleValues ''Func''))"
    by blast
  from gen_wrapper_forwards [where Partial_Kwargs = "[(''sep'', PyStr ''-'')]"
      and f = accepts_anything and Partial_Args = "[PyInt 9]"] no_Func
  obtain wrapper where
    built: "AbstractAction_gen_wrapper (Function accepts_anything) [PyInt 9]
              [(''sep'', PyStr ''-'')] = Inr wrapper" and
    forwards: "\<And>args kwargs. wrapper args kwargs =
      (if set (map fst kwargs) \<inter> set (map fst [(''sep'', PyStr ''-'')]) = {}
       then accepts_anything (args @ [PyInt 9]) (kwargs @ [(''sep'', PyStr ''-'')])
       else Inl (TypeError (MultipleValues
              (hd (filter (\<lambda>k. k \<in> set (map fst kwargs)) (map fst [(''sep'', PyStr ''-'')]))))))"
    by blast
  have "wrapper [PyInt 1] [(''end'', PyStr ''.'')] =
      accepts_anything [PyInt 1, PyInt 9] [(''end'', PyStr ''.''), (''sep'', PyStr ''-'')]"
    by (simp add: forwards)
  with built bound_Func no_Func raises show ?thesis
    by blast
qed

text \<open>
  C5. The registry hook returns \<^verbatim>\<open>True\<close> exactly when the candidate meets the registry
  requirements of the specification and \<^verbatim>\<open>False\<close> otherwise; a candidate that exposes
  only a creation entry point is refused.
\<close>

theorem registry_check_iff_requirements:
  "RegistryInterface_subclasshook (plain sub) = Inr (PyBool (registry_requirements sub)) \<and>
   RegistryInterface_subclasshook (plain [''create'' \<mapsto> Function f]) = Inr (PyBool False)"
  by (simp add: RegistryInterface_subclasshook_eq registry_requirements_def has_callable_def)

text \<open>
  C6, as stated, fails twice. On a candidate with no members the download hook returns
  \<^verbatim>\<open>NotImplemented\<close>, which is not a boolean. On a candidate whose attribute reads
  raise \<^verbatim>\<open>RuntimeError\<close> the registry hook raises it.
\<close>

theorem capability_check_counterexample:
  "DownloadInterface_subclasshook (plain Map.empty) = Inr PyNotImplemented \<and>
   \<not> is_bool PyNotImplemented \<and>
   RegistryInterface_subclasshook (\<lambda>name. Inl (RuntimeError ''boom'')) =
     Inl (RuntimeError ''boom'')"
  by (simp add: DownloadInterface_subclasshook_eq has_callable_def
      RegistryInterface_subclasshook_raises)

text \<open>
  C6, amended. For every candidate whose attribute reads raise nothing but
  \<^verbatim>\<open>AttributeError\<close> (each member is there or is missing), no hook raises: the link,
  registry and action hooks return a boolean, the download and upload hooks return
  \<^verbatim>\<open>True\<close> or \<^verbatim>\<open>NotImplemented\<close>. The hooks catch nothing else: each raises what the
  read of the member it tests first raises, when that is not \<^verbatim>\<open>AttributeError\<close>.
\<close>

theorem hooks_raise_only_what_reads_raise:
  "(raises_only_AttributeError sub \<longrightarrow>
      (\<exists>b. LinkInterface_subclasshook sub = Inr (PyBool b)) \<and>
      (\<exists>b. RegistryInterface_subclasshook sub = Inr (PyBool b)) \<and>
      (\<exists>b. ActionInterface_subclasshook sub = Inr (PyBool b)) \<and>
      (DownloadInterface_subclasshook sub = Inr (PyBool True) \<or>
       DownloadInterface_subclasshook sub = Inr PyNotImplemented) \<and>
      (UploadInterface_subclasshook sub = Inr (PyBool True) \<or>
       UploadInterface_subclasshook sub = Inr PyNotImplemented)) \<and>
   (sub ''__enter__'' = Inl e \<and> \<not> is_AttributeError e \<longrightarrow>
      LinkInterface_subclasshook sub = Inl e) \<and>
   (sub ''create'' = Inl e \<and> \<not> is_AttributeError e \<longrightarrow>
      RegistryInterface_subclasshook sub = Inl e) \<and>
   (sub ''__behavior__'' = Inl e \<and> \<not> is_AttributeError e \<longrightarrow>
      ActionInterface_subclasshook sub = Inl e) \<and>
   (sub ''__aenter__'' = Inl e \<and> \<not> is_AttributeError e \<longrightarrow>
      DownloadInterface_subclasshook sub = Inl e \<and> UploadInterface_subclasshook sub = Inl e)"
proof -
  have plain_case: "raises_only_AttributeError sub \<longrightarrow>
      (\<exists>b. LinkInterface_subclasshook sub = Inr (PyBool b)) \<and>
      (\<exists>b. RegistryInterface_subclasshook sub = Inr (PyBool b)) \<and>
      (\<exists>b. ActionInterface_subclasshook sub = Inr (PyBool b)) \<and>
      (DownloadInterface_subclasshook sub = Inr (PyBool True) \<or>
       DownloadInterface_subclasshook sub = Inr PyNotImplemented) \<and>
      (UploadInterface_subclasshook sub = Inr (PyBool True) \<or>
       UploadInterface_subclasshook sub = Inr PyNotImplemented)"
    by (simp add: LinkInterface_subclasshook_reads RegistryInterface_subclasshook_reads
        ActionInterface_subclasshook_reads DownloadInterface_subclasshook_reads
        UploadInterface_subclasshook_reads)
  show ?thesis
    using plain_case LinkInterface_subclasshook_raises [of sub e]
      RegistryInterface_subclasshook_raises [of sub e]
      ActionInterface_subclasshook_raises [of sub e]
      DownloadInterface_subclasshook_raises [of sub e]
      UploadInterface_subclasshook_raises [of sub e]
    by blast
qed

theorem hooks_raise_only_what_reads_raise_witness:
  "(raises_only_AttributeError (plain [''create'' \<mapsto> Function accepts_anything]) \<and>
    (\<exists>b. LinkInterface_subclasshook (plain [''create'' \<mapsto> Function accepts_anything]) =
        Inr (PyBool b)) \<and>
    (\<exists>b. RegistryInterface_subclasshook (plain [''create'' \<mapsto> Function accepts_anything]) =
        Inr (PyBool b)) \<and>
    (\<exists>b. ActionInterface_subclasshook (plain [''create'' \<mapsto> Function accepts_anything]) =
        Inr (PyBool b))) \<and>
   (\<not> is_AttributeError (RuntimeError ''boom'') \<and>
    LinkInterface_subclasshook (\<lambda>name. Inl (RuntimeError ''boom'')) =
      Inl (RuntimeError ''boom'') \<and>
    RegistryInterface_subclasshook (\<lambda>name. Inl (RuntimeError ''boom'')) =
      Inl (RuntimeError ''boom'') \<and>
    ActionInterface_subclasshook (\<lambda>name. Inl (RuntimeError ''boom'')) =
      Inl (RuntimeError ''boom'') \<and>
    DownloadInterface_subclasshook (\<lambda>name. Inl (RuntimeError ''boom'')) =
      Inl (RuntimeError ''boom'') \<and>
    UploadInterface_subclasshook (\<lambda>name. Inl (RuntimeError ''boom'')) =
      Inl (RuntimeError ''boom''))"
proof -
  have members: "raises_only_AttributeError (plain [''create'' \<mapsto> Function accepts_anything])"
    by (simp add: raises_only_AttributeError_def plain_def)
  have other: "\<not> is_AttributeError (RuntimeError ''boom'')"
    by simp
  show ?thesis
    using members other
      hooks_raise_only_what_reads_raise
        [of "plain [''create'' \<mapsto> Function accepts_anything]" "RuntimeError ''boom''"]
      hooks_raise_only_what_reads_raise
        [of "\<lambda>name. Inl (RuntimeError ''boom'')" "RuntimeError ''boom''"]
    by simp
qed

text \<open>
  C7, as stated, fails: the registry hook has no \<^verbatim>\<open>or NotImplemented\<close>, and no candidate
  that misses one of the registry requirements gets a truthy answer from it.
\<close>

theorem registry_check_has_no_noop_counterexample:
  "\<not> (\<exists>sub. \<not> registry_requirements sub \<and>
         (\<exists>v. RegistryInterface_subclasshook (plain sub) = Inr v \<and> truthy v))"
  by (simp add: RegistryInterface_subclasshook_eq)

text \<open>
  C7, amended. The \<^verbatim>\<open>or NotImplemented\<close> sub-expressions are in the download and upload
  hooks, where they make the test of the before-hook a no-op: the result of the download
  hook never depends on the member \<^verbatim>\<open>before_download\<close> (of the upload hook, on
  \<^verbatim>\<open>before_upload\<close>), and a candidate with \<^verbatim>\<open>__enter__\<close>, \<^verbatim>\<open>__exit__\<close> and the
  after-hook but no before-hook gets \<^verbatim>\<open>True\<close>.
\<close>

theorem before_hook_test_is_noop:
  "DownloadInterface_subclasshook (plain (sub(''before_download'' := m))) =
     DownloadInterface_subclasshook (plain sub) \<and>
   UploadInterface_subclasshook (plain (sub(''before_upload'' := m))) =
     UploadInterface_subclasshook (plain sub) \<and>
   DownloadInterface_subclasshook
     (plain [''__enter__'' \<mapsto> Function f, ''__exit__'' \<mapsto> Function f,
             ''after_download'' \<mapsto> Function f]) = Inr (PyBool True) \<and>
   UploadInterface_subclasshook
     (plain [''__enter__'' \<mapsto> Function f, ''__exit__'' \<mapsto> Function f,
             ''after_upload'' \<mapsto> Function f]) = Inr (PyBool True)"
  by (simp add: DownloadInterface_subclasshook_eq UploadInterface_subclasshook_eq has_callable_def)

text \<open>
  C8, as stated, fails for a keyword named \<^verbatim>\<open>self\<close>: an Action whose behavior was
  assigned, called as \<^verbatim>\<open>a(7, self=None)\<close>, raises \<^verbatim>\<open>TypeError\<close> and does not call
  \<open>f\<close> with those arguments, which \<open>f\<close> itself accepts.
\<close>

theorem assigned_action_self_keyword_counterexample:
  "(case AbstractAction_assign_behavior [''name'' \<mapsto> Data (PyStr ''echo'')]
           (Function accepts_anything) of
      Inl e \<Rightarrow> Inl e
    | Inr a \<Rightarrow> AbstractAction_call a [PyInt 7] [(''self'', PyNone)]) =
     Inl (TypeError (MultipleValues ''self'')) \<and>
   accepts_anything [PyInt 7] [(''self'', PyNone)] = Inr PyNone"
  by (simp add: AbstractAction_assign_behavior_def AbstractAction_behavior_setter_def
      sync_wrapper_no_bound AbstractAction_call_def accepts_anything_def)

text \<open>
  C8, amended. For every callable \<open>f\<close>, the assignment to the behavior property stores
  the wrapper that \<^verbatim>\<open>_gen_wrapper\<close> builds with no bound positional and no bound named
  value; that wrapper gives, on any arguments, exactly what \<open>f\<close> gives on them, and the
  Action called afterwards does the same for any positional arguments and any keyword
  arguments none of which is named \<^verbatim>\<open>self\<close> (with such a keyword the call raises
  \<^verbatim>\<open>TypeError\<close>). The assignment of a coroutine function to the async property stores
  a wrapper with nothing bound in the same way.
\<close>

theorem assignment_binds_nothing:
  "(\<exists>a' wrapper.
      AbstractAction_assign_behavior a (Function f) = Inr a' \<and>
      a' ''_behavior_store'' = Some (Function wrapper) \<and>
      AbstractAction_gen_wrapper (Function f) [] [] = Inr wrapper \<and>
      (\<forall>args kwargs. wrapper args kwargs = f args kwargs) \<and>
      (\<forall>args kwargs. AbstractAction_call a' args kwargs =
         (if ''self'' \<in> set (map fst kwargs) then Inl (TypeError (MultipleValues ''self''))
          else f args kwargs))) \<and>
   (\<exists>a' wrapper.
      AbstractAsyncAction_assign_async_behavior a (CoroutineFunction f) = Inr a' \<and>
      a' ''_behavior_store'' = Some (Function wrapper) \<and>
      AbstractAsyncAction_gen_wrapper (CoroutineFunction f) [] [] = Inr wrapper \<and>
      (\<forall>args kwargs. wrapper args kwargs = f args kwargs))"
  by (simp add: AbstractAction_assign_behavior_def AbstractAction_behavior_setter_def
      AbstractAsyncAction_assign_async_behavior_def AbstractAsyncAction_async_behavior_setter_def
      AbstractAction_call_def AbstractAction_behavior_getter_def getattr_def plain_def
      sync_wrapper_no_bound async_wrapper_no_bound)

text \<open>
  C9. The action hook accepts a candidate exactly when it has a \<^verbatim>\<open>__behavior__\<close> member
  and a callable \<^verbatim>\<open>__call__\<close>, or an \<^verbatim>\<open>__async_behavior__\<close> member and a callable
  \<^verbatim>\<open>__await__\<close>; setting or removing \<^verbatim>\<open>__enter__\<close>, \<^verbatim>\<open>__exit__\<close>,
  \<^verbatim>\<open>__aenter__\<close> or \<^verbatim>\<open>__aexit__\<close> never changes its result.
\<close>

theorem action_check_context_branch_redundant:
  "ActionInterface_subclasshook (plain sub) = Inr (PyBool (
     (has_member sub ''__behavior__'' \<and> has_callable sub ''__call__'') \<or>
     (has_member sub ''__async_behavior__'' \<and> has_callable sub ''__await__''))) \<and>
   ActionInterface_subclasshook
     (plain (sub(''__enter__'' := m1, ''__exit__'' := m2, ''__aenter__'' := m3,
                 ''__aexit__'' := m4))) =
     ActionInterface_subclasshook (plain sub)"
  by (simp add: ActionInterface_subclasshook_eq has_member_def has_callable_def)

text \<open>
  C10. The download hook never returns \<^verbatim>\<open>False\<close>: for every candidate it returns a
  truthy value, \<^verbatim>\<open>True\<close> or \<^verbatim>\<open>NotImplemented\<close>, and the candidate with no member at
  all gets \<^verbatim>\<open>NotImplemented\<close>.
\<close>

theorem download_check_never_False:
  "DownloadInterface_subclasshook (plain sub) \<noteq> Inr (PyBool False) \<and>
   (\<exists>v. DownloadInterface_subclasshook (plain sub) = Inr v \<and> truthy v \<and>
        (v = PyBool True \<or> v = PyNotImplemented)) \<and>
   DownloadInterface_subclasshook (plain Map.empty) = Inr PyNotImplemented"
  by (simp add: DownloadInterface_subclasshook_eq has_callable_def)

end
